theory Spec2Isabelle
  imports Main
begin

section \<open>Data model (models.js: the Mongoose schemas)\<close>

text \<open>
  An ObjectId is an opaque key; only equality is used by the handlers
  (\<^verbatim>\<open>teacher_id.equals(decoded.id)\<close>, \<^verbatim>\<open>students.includes(...)\<close>, \<^verbatim>\<open>findById\<close>).
  A \<^verbatim>\<open>Date\<close> is its time value, the milliseconds since the epoch, and the relational
  operators on two dates compare these numbers. The \<^verbatim>\<open>duration\<close> of a quiz is a number of
  minutes; the schema puts no lower bound on it, so it is an integer of either sign.
  Durations are whole minutes; a fractional duration is outside this model.
\<close>

type_synonym oid = nat
type_synonym instant = int

text \<open>
  \<^verbatim>\<open>new Date(t)\<close> holds the time value t only within 8.64e15 milliseconds of the epoch;
  outside that range the result is an Invalid Date, whose time value is NaN. An Invalid Date
  is \<open>None\<close> here. A relational operator with NaN on either side is false, and
  arithmetic on NaN gives NaN. The left operand of the two comparisons below is the clock
  reading, which is always a valid date.
\<close>

definition max_time :: int where
  "max_time = 8640000000000000"

definition valid_time :: "int \<Rightarrow> bool" where
  "valid_time t = (- max_time \<le> t \<and> t \<le> max_time)"

definition new_Date :: "int \<Rightarrow> instant option" where
  "new_Date t = (if valid_time t then Some t else None)"

definition lt_Date :: "instant \<Rightarrow> instant option \<Rightarrow> bool" where
  "lt_Date n d = (case d of None \<Rightarrow> False | Some t \<Rightarrow> n < t)"

definition gt_Date :: "instant \<Rightarrow> instant option \<Rightarrow> bool" where
  "gt_Date n d = (case d of None \<Rightarrow> False | Some t \<Rightarrow> n > t)"

record option_doc =
  option_text :: string
  is_correct :: bool

record question_doc =
  question_text :: string
  options :: "option_doc list"
  is_multiple_choice :: bool

text \<open>
  The four fields a quiz request body carries (\<^verbatim>\<open>const { quiz_name, start_date, duration,
  questions } = req.body\<close>), with \<^verbatim>\<open>start_date\<close> already read as a date; a body whose
  \<^verbatim>\<open>start_date\<close> does not denote an instant is outside this model. A quiz document is
  these and the \<^verbatim>\<open>class_id\<close> the create handler adds.
\<close>

record quiz_body =
  quiz_name :: string
  start_date :: instant
  duration :: int
  questions :: "question_doc list"

record quiz_doc = quiz_body +
  class_id :: oid

text \<open>
  \<^verbatim>\<open>classSchema\<close> declares \<^verbatim>\<open>quizzes: [quizSchema]\<close>: the quizzes of a stored class are
  embedded quiz documents, not ids.
\<close>

record class_doc =
  class_name :: string
  teacher_id :: oid
  students :: "oid list"
  quizzes :: "quiz_doc list"

text \<open>
  \<^verbatim>\<open>studentSchema\<close> declares four paths. A stored student document is modelled with these
  and with the array \<^verbatim>\<open>classes\<close> that the join handler addresses in its update operator;
  the schema does not declare that path.
\<close>

record student_doc =
  username :: string
  password :: string
  full_name :: string
  email :: string
  classes :: "oid list"

definition studentSchema :: "string list" where
  "studentSchema = [''username'', ''password'', ''full_name'', ''email'']"

text \<open>The three collections the handlers of routes/classes.js touch, keyed by \<^verbatim>\<open>_id\<close>.\<close>

record db =
  Class :: "oid \<rightharpoonup> class_doc"
  Quiz :: "oid \<rightharpoonup> quiz_doc"
  Student :: "oid \<rightharpoonup> student_doc"

section \<open>Requests, responses and the environment of a request\<close>

text \<open>
  \<^verbatim>\<open>req.user\<close> is the decoded token payload set by the authentication middleware:
  an id and a role string. It is optional because two handlers test \<^verbatim>\<open>!decoded\<close>.
\<close>

record principal =
  user_id :: oid
  role :: string

text \<open>
  Every awaited repository call may reject; the handler's outer \<^verbatim>\<open>catch\<close> turns a rejection
  into status 500 (a repository error is never a \<^verbatim>\<open>JsonWebTokenError\<close>). Which calls reject
  in a request is given by the environment, as is the clock read by \<^verbatim>\<open>new Date()\<close> and the
  \<^verbatim>\<open>_id\<close> that \<^verbatim>\<open>new Quiz(...)\<close> generates.
\<close>

datatype dbop =
  Class_findById | Student_findById | Quiz_findById
  | Class_save | Quiz_validate | Quiz_save | Student_findByIdAndUpdate

record env =
  now :: instant
  rejects :: "dbop \<Rightarrow> bool"
  new_id :: oid

datatype json =
  Error string
  | Message string
  | QuizJson quiz_doc
  | MessageQuiz string quiz_doc

record response =
  status :: nat
  body :: json

definition respond :: "nat \<Rightarrow> json \<Rightarrow> response" where
  "respond code j = \<lparr>status = code, body = j\<rparr>"

definition internal_error :: response where
  "internal_error = respond 500 (Error ''Internal Server Error'')"

section \<open>POST /:classId/add-student (routes/classes.js, lines 517-559)\<close>

definition post_add_student ::
  "env \<Rightarrow> db \<Rightarrow> principal option \<Rightarrow> oid \<Rightarrow> oid \<Rightarrow> response \<times> db" where
  "post_add_student e d user classId studentId =
    (case user of
       None \<Rightarrow> (internal_error, d)
     | Some decoded \<Rightarrow>
       if role decoded \<noteq> ''teacher'' then (respond 403 (Error ''User is not a teacher''), d)
       else if rejects e Class_findById then (internal_error, d)
       else
         (case Class d classId of
            None \<Rightarrow> (respond 404 (Error ''Class not found''), d)
          | Some existingClass \<Rightarrow>
            if teacher_id existingClass \<noteq> user_id decoded then
              (respond 403 (Error ''User is not the teacher of this class''), d)
            else if rejects e Student_findById then (internal_error, d)
            else
              (case Student d studentId of
                 None \<Rightarrow> (respond 404 (Error ''Student not found''), d)
               | Some student \<Rightarrow>
                 if rejects e Class_save then (internal_error, d)
                 else
                   (respond 200 (Message ''Student added to the class successfully''),
                    d\<lparr>Class := (Class d)(classId \<mapsto>
                         existingClass\<lparr>students := students existingClass @ [studentId]\<rparr>)\<rparr>))))"

section \<open>POST /join (routes/classes.js, lines 595-631)\<close>

text \<open>
  \<^verbatim>\<open>Student.findByIdAndUpdate(id, { $addToSet: { classes: classId } })\<close> goes through the
  model's schema. Mongoose casts an update against the schema in strict mode (the default,
  which neither \<^verbatim>\<open>studentSchema\<close> nor the call overrides): an operator's path that the
  schema does not declare is removed from the update before it is sent.
\<close>

definition castUpdate :: "string list \<Rightarrow> string \<times> 'v \<Rightarrow> (string \<times> 'v) option" where
  "castUpdate schema upd = (if fst upd \<in> set schema then Some upd else None)"

definition addToSet :: "'a \<Rightarrow> 'a list \<Rightarrow> 'a list" where
  "addToSet x xs = (if x \<in> set xs then xs else xs @ [x])"

definition Student_addToSet_classes :: "db \<Rightarrow> oid \<Rightarrow> oid \<Rightarrow> db" where
  "Student_addToSet_classes d sid classId =
    (case castUpdate studentSchema (''classes'', classId) of
       None \<Rightarrow> d
     | Some upd \<Rightarrow>
       (case Student d sid of
          None \<Rightarrow> d
        | Some s \<Rightarrow> d\<lparr>Student := (Student d)(sid \<mapsto> s\<lparr>classes := addToSet (snd upd) (classes s)\<rparr>)\<rparr>))"

text \<open>
  Both \<^verbatim>\<open>findById\<close> calls are awaited before the class is tested. A missing student
  document makes \<^verbatim>\<open>student._id\<close> throw, which the outer \<^verbatim>\<open>catch\<close> answers with 500.
\<close>

definition post_join :: "env \<Rightarrow> db \<Rightarrow> principal option \<Rightarrow> oid \<Rightarrow> response \<times> db" where
  "post_join e d user classId =
    (case user of
       None \<Rightarrow> (internal_error, d)
     | Some decoded \<Rightarrow>
       if role decoded \<noteq> ''student'' then (respond 403 (Error ''User is not a student''), d)
       else if rejects e Class_findById \<or> rejects e Student_findById then (internal_error, d)
       else
         (case Class d classId of
            None \<Rightarrow> (respond 404 (Error ''Class not found''), d)
          | Some existingClass \<Rightarrow>
            (case Student d (user_id decoded) of
               None \<Rightarrow> (internal_error, d)
             | Some student \<Rightarrow>
               if user_id decoded \<notin> set (students existingClass) then
                 if rejects e Class_save then (internal_error, d)
                 else
                   (let d1 = d\<lparr>Class := (Class d)(classId \<mapsto>
                          existingClass\<lparr>students := students existingClass @ [user_id decoded]\<rparr>)\<rparr>
                    in if rejects e Student_findByIdAndUpdate then (internal_error, d1)
                       else (respond 200 (Message ''Student joined the class successfully''),
                             Student_addToSet_classes d1 (user_id decoded) classId))
               else (respond 200 (Message ''Student already in the class''), d))))"

section \<open>POST /:classId/quizzes (routes/classes.js, lines 782-844)\<close>

definition new_Quiz :: "quiz_body \<Rightarrow> oid \<Rightarrow> quiz_doc" where
  "new_Quiz b classId =
    \<lparr>quiz_name = quiz_name b, start_date = start_date b, duration = duration b,
     questions = questions b, class_id = classId\<rparr>"

text \<open>
  The inner \<^verbatim>\<open>try\<close> block: validate, save the quiz, push its id into the class, save the
  class. A rejection leaves the block at that point; its \<^verbatim>\<open>catch\<close> only logs, and the
  handler goes on to the answer.

  \<^verbatim>\<open>existingClass.quizzes.push(newQuiz._id)\<close> pushes an ObjectId into an array of embedded
  quiz documents. Mongoose casts a value that is not an object to the subdocument
  \<^verbatim>\<open>{ _id: value }\<close>, which has none of the paths \<^verbatim>\<open>quizSchema\<close> requires
  (\<^verbatim>\<open>quiz_name\<close>, \<^verbatim>\<open>class_id\<close>, \<^verbatim>\<open>start_date\<close>, \<^verbatim>\<open>duration\<close>). Saving the class
  validates its subdocuments, so \<^verbatim>\<open>existingClass.save()\<close> rejects with a validation error
  whenever the array holds such an element, and nothing of the class is written.
\<close>

datatype embedded_quiz = Embedded quiz_doc | IdOnly oid

fun embedded_valid :: "embedded_quiz \<Rightarrow> bool" where
  "embedded_valid (Embedded q) = True"
| "embedded_valid (IdOnly i) = False"

fun embedded_doc :: "embedded_quiz \<Rightarrow> quiz_doc option" where
  "embedded_doc (Embedded q) = Some q"
| "embedded_doc (IdOnly i) = None"

definition save_new_quiz :: "env \<Rightarrow> db \<Rightarrow> oid \<Rightarrow> class_doc \<Rightarrow> quiz_doc \<Rightarrow> db" where
  "save_new_quiz e d classId existingClass newQuiz =
    (if rejects e Quiz_validate then d
     else if rejects e Quiz_save then d
     else
       (let d1 = d\<lparr>Quiz := (Quiz d)(new_id e \<mapsto> newQuiz)\<rparr>;
            pushed = map Embedded (quizzes existingClass) @ [IdOnly (new_id e)]
        in if rejects e Class_save \<or> \<not> list_all embedded_valid pushed then d1
           else d1\<lparr>Class := (Class d1)(classId \<mapsto>
                  existingClass\<lparr>quizzes := List.map_filter embedded_doc pushed\<rparr>)\<rparr>))"

definition post_quizzes ::
  "env \<Rightarrow> db \<Rightarrow> principal option \<Rightarrow> oid \<Rightarrow> quiz_body \<Rightarrow> response \<times> db" where
  "post_quizzes e d user classId b =
    (case user of
       None \<Rightarrow> (internal_error, d)
     | Some decoded \<Rightarrow>
       if role decoded \<noteq> ''teacher'' then (respond 403 (Error ''User is not a teacher''), d)
       else if rejects e Class_findById then (internal_error, d)
       else
         (case Class d classId of
            None \<Rightarrow> (respond 404 (Error ''Class not found''), d)
          | Some existingClass \<Rightarrow>
            if teacher_id existingClass \<noteq> user_id decoded then
              (respond 403 (Error ''User is not the teacher of this class''), d)
            else if start_date b \<le> now e then
              (respond 400 (Error ''Quiz start date must be in the future''), d)
            else
              (let newQuiz = new_Quiz b classId
               in (respond 200 (MessageQuiz ''Quiz created successfully'' newQuiz),
                   save_new_quiz e d classId existingClass newQuiz))))"

section \<open>PATCH /:classId/quizzes/:quizId (routes/classes.js, lines 915-972)\<close>

definition update_quiz :: "quiz_doc \<Rightarrow> quiz_body \<Rightarrow> quiz_doc" where
  "update_quiz existingQuiz b =
    existingQuiz\<lparr>quiz_name := quiz_name b, start_date := start_date b,
                 duration := duration b, questions := questions b\<rparr>"

definition patch_quiz ::
  "env \<Rightarrow> db \<Rightarrow> principal option \<Rightarrow> oid \<Rightarrow> oid \<Rightarrow> quiz_body \<Rightarrow> response \<times> db" where
  "patch_quiz e d user classId quizId b =
    (case user of
       None \<Rightarrow> (internal_error, d)
     | Some decoded \<Rightarrow>
       if role decoded \<noteq> ''teacher'' then (respond 403 (Error ''User is not a teacher''), d)
       else if rejects e Class_findById then (internal_error, d)
       else
         (case Class d classId of
            None \<Rightarrow> (respond 404 (Error ''Class not found''), d)
          | Some existingClass \<Rightarrow>
            if teacher_id existingClass \<noteq> user_id decoded then
              (respond 403 (Error ''User is not the teacher of this class''), d)
            else if rejects e Quiz_findById then (internal_error, d)
            else
              (case Quiz d quizId of
                 None \<Rightarrow> (respond 404 (Error ''Quiz not found''), d)
               | Some existingQuiz \<Rightarrow>
                 if start_date b \<le> now e then
                   (respond 400 (Error ''Quiz start date must be in the future''), d)
                 else if rejects e Quiz_save then (internal_error, d)
                 else
                   (let updated = update_quiz existingQuiz b
                    in (respond 200 (MessageQuiz ''Quiz updated successfully'' updated),
                        d\<lparr>Quiz := (Quiz d)(quizId \<mapsto> updated)\<rparr>)))))"

section \<open>GET /:classId/quizzes/:quizId (routes/classes.js, lines 1067-1130)\<close>

definition get_quiz :: "env \<Rightarrow> db \<Rightarrow> principal option \<Rightarrow> oid \<Rightarrow> oid \<Rightarrow> response" where
  "get_quiz e d user classId quizId =
    (case user of
       None \<Rightarrow> respond 403 (Error ''Forbidden - Only authenticated users can access this endpoint'')
     | Some decoded \<Rightarrow>
       if role decoded \<noteq> ''teacher'' \<and> role decoded \<noteq> ''student'' then
         respond 403 (Error ''Forbidden - Only authenticated users can access this endpoint'')
       else if rejects e Class_findById then internal_error
       else
         (case Class d classId of
            None \<Rightarrow> respond 404 (Error ''Class not found'')
          | Some myClass \<Rightarrow>
            if \<not> (teacher_id myClass = user_id decoded
                   \<or> user_id decoded \<in> set (students myClass)) then
              respond 403 (Error ''User is not authorized to access this quiz'')
            else if rejects e Quiz_findById then internal_error
            else
              (case Quiz d quizId of
                 None \<Rightarrow> respond 404 (Error ''Quiz not found'')
               | Some quiz \<Rightarrow>
                 if role decoded = ''student'' then
                   (let quizStartDate = new_Date (start_date quiz);
                        quizEndDate =
                          (case quizStartDate of
                             None \<Rightarrow> None
                           | Some getTime \<Rightarrow> new_Date (getTime + duration quiz * 60000))
                    in if lt_Date (now e) quizStartDate then
                         respond 200 (Message ''Quiz has not started yet'')
                       else if gt_Date (now e) quizEndDate then
                         respond 200 (Message ''Quiz has passed'')
                       else respond 200 (QuizJson quiz))
                 else respond 200 (QuizJson quiz))))"

text \<open>The three outcomes of a quiz read that the specification names.\<close>

definition Full :: "quiz_doc \<Rightarrow> response" where
  "Full q = respond 200 (QuizJson q)"

definition NotStarted :: response where
  "NotStarted = respond 200 (Message ''Quiz has not started yet'')"

definition Ended :: response where
  "Ended = respond 200 (Message ''Quiz has passed'')"

text \<open>What a response body shows of the \<^verbatim>\<open>is_correct\<close> flags, question by question.\<close>

definition correctness_flags :: "quiz_doc \<Rightarrow> bool list list" where
  "correctness_flags q = map (\<lambda>qu. map is_correct (options qu)) (questions q)"

fun payload_flags :: "json \<Rightarrow> bool list list option" where
  "payload_flags (QuizJson q) = Some (correctness_flags q)"
| "payload_flags (MessageQuiz m q) = Some (correctness_flags q)"
| "payload_flags (Error m) = None"
| "payload_flags (Message m) = None"

section \<open>Concrete data used to run the handlers\<close>

text \<open>
  Teacher 10 owns class 1, whose only member is student 20; teacher 11 owns class 2.
  Quiz 100 has the \<^verbatim>\<open>class_id\<close> 1 and quiz 200 the \<^verbatim>\<open>class_id\<close> 2. Student 21 is in no
  class. No class embeds a quiz.
\<close>

definition calm :: "dbop \<Rightarrow> bool" where
  "calm op = False"

definition quiz0 :: quiz_doc where
  "quiz0 = \<lparr>quiz_name = ''Math Quiz'', start_date = 1000000, duration = 60,
            questions = [\<lparr>question_text = ''2 + 2'',
                          options = [\<lparr>option_text = ''4'', is_correct = True\<rparr>,
                                     \<lparr>option_text = ''5'', is_correct = False\<rparr>],
                          is_multiple_choice = False\<rparr>],
            class_id = 1\<rparr>"

definition class0 :: class_doc where
  "class0 = \<lparr>class_name = ''Math'', teacher_id = 10, students = [20], quizzes = []\<rparr>"

definition class1 :: class_doc where
  "class1 = \<lparr>class_name = ''Physics'', teacher_id = 11, students = [], quizzes = []\<rparr>"

definition quiz1 :: quiz_doc where
  "quiz1 = \<lparr>quiz_name = ''Physics Quiz'', start_date = 1000000, duration = 30,
            questions = [\<lparr>question_text = ''g'',
                          options = [\<lparr>option_text = ''9.81'', is_correct = True\<rparr>],
                          is_multiple_choice = False\<rparr>],
            class_id = 2\<rparr>"

definition body0 :: quiz_body where
  "body0 = \<lparr>quiz_name = ''Algebra'', start_date = 9000000, duration = 45, questions = []\<rparr>"

definition student0 :: student_doc where
  "student0 = \<lparr>username = ''s'', password = ''h'', full_name = ''S T'', email = ''s@x.org'',
               classes = []\<rparr>"

definition db0 :: db where
  "db0 = \<lparr>Class = [1 \<mapsto> class0, 2 \<mapsto> class1], Quiz = [100 \<mapsto> quiz0, 200 \<mapsto> quiz1],
           Student = [20 \<mapsto> student0, 21 \<mapsto> student0]\<rparr>"

definition teacher0 :: principal where
  "teacher0 = \<lparr>user_id = 10, role = ''teacher''\<rparr>"

definition teacher1 :: principal where
  "teacher1 = \<lparr>user_id = 11, role = ''teacher''\<rparr>"

definition pupil1 :: principal where
  "pupil1 = \<lparr>user_id = 21, role = ''student''\<rparr>"

definition pupil0 :: principal where
  "pupil0 = \<lparr>user_id = 20, role = ''student''\<rparr>"

definition env_at :: "instant \<Rightarrow> env" where
  "env_at t = \<lparr>now = t, rejects = calm, new_id = 101\<rparr>"

text \<open>An environment in which the class cannot be saved, and nothing else goes wrong.\<close>

definition class_save_fails :: "dbop \<Rightarrow> bool" where
  "class_save_fails op = (op = Class_save)"

section \<open>Properties of the quiz read\<close>

text \<open>
  C6. When the principal is the teacher who owns the class of the request path, and class
  and quiz are found, the read returns the full quiz whatever the clock says.
\<close>

theorem teacher_read_is_full:
  assumes "role p = ''teacher''"
    and "Class d cid = Some c" and "teacher_id c = user_id p"
    and "Quiz d qid = Some q"
    and "\<not> rejects e Class_findById" and "\<not> rejects e Quiz_findById"
  shows "get_quiz (e\<lparr>now := t\<rparr>) d (Some p) cid qid = Full q"
  using assms by (simp add: get_quiz_def Full_def)

theorem teacher_read_is_full_witness:
  "get_quiz ((env_at 0)\<lparr>now := 5000000\<rparr>) db0 (Some teacher0) 1 100 = Full quiz0"
  by (rule teacher_read_is_full [where c = class0])
    (simp_all add: teacher0_def db0_def class0_def env_at_def calm_def)

text \<open>
  What a student who is a member of the class receives, as a function of the clock: the
  two comparisons of the handler are both strict, so both ends of the window belong to it.
\<close>

lemma student_read:
  assumes "role p = ''student''"
    and "Class d cid = Some c" and "user_id p \<in> set (students c)"
    and "Quiz d qid = Some q"
    and "\<not> rejects e Class_findById" and "\<not> rejects e Quiz_findById"
  shows "get_quiz e d (Some p) cid qid =
    (if lt_Date (now e) (new_Date (start_date q)) then NotStarted
     else if gt_Date (now e)
          (case new_Date (start_date q) of
             None \<Rightarrow> None
           | Some getTime \<Rightarrow> new_Date (getTime + duration q * 60000)) then Ended
     else Full q)"
  using assms by (simp add: get_quiz_def Full_def NotStarted_def Ended_def Let_def)

text \<open>
  C1, as the specification states it, fails at the end of the window: quiz0 starts at
  1000000 and lasts 60 minutes, and at the instant 4600000 = 1000000 + 60 * 60000 the
  student still receives the full quiz, not the message that the quiz has passed.
\<close>

theorem end_instant_counterexample:
  "start_date quiz0 + duration quiz0 * 60000 = 4600000
   \<and> get_quiz (env_at 4600000) db0 (Some pupil0) 1 100 = Full quiz0
   \<and> get_quiz (env_at 4600000) db0 (Some pupil0) 1 100 \<noteq> Ended"
  by (simp add: get_quiz_def env_at_def calm_def db0_def pupil0_def class0_def quiz0_def
      Full_def Ended_def respond_def new_Date_def valid_time_def max_time_def lt_Date_def
      gt_Date_def)

text \<open>
  C1, amended. For a student who is a member of the class and a quiz of non-negative
  duration, the window is the closed interval from start_date to start_date + duration
  minutes: the full quiz is returned at the instant start_date and at the instant
  start_date + duration, and the answer is Ended at every later instant. In the last
  part the stored start_date and the clock reading are time values of dates, as every
  stored \<^verbatim>\<open>Date\<close> and every \<^verbatim>\<open>new Date()\<close> is; the end of the window is then a date too.
\<close>

theorem student_window_closed:
  assumes "role p = ''student''"
    and "Class d cid = Some c" and "user_id p \<in> set (students c)"
    and "Quiz d qid = Some q"
    and "\<not> rejects e Class_findById" and "\<not> rejects e Quiz_findById"
    and "0 \<le> duration q"
  shows "get_quiz (e\<lparr>now := start_date q\<rparr>) d (Some p) cid qid = Full q
    \<and> get_quiz (e\<lparr>now := start_date q + duration q * 60000\<rparr>) d (Some p) cid qid = Full q
    \<and> (\<forall>t. valid_time (start_date q) \<and> valid_time t
            \<and> start_date q + duration q * 60000 < t \<longrightarrow>
          get_quiz (e\<lparr>now := t\<rparr>) d (Some p) cid qid = Ended)"
proof -
  let ?end = "start_date q + duration q * 60000"
  have r: "get_quiz (e\<lparr>now := t\<rparr>) d (Some p) cid qid =
      (if lt_Date t (new_Date (start_date q)) then NotStarted
       else if gt_Date t
            (case new_Date (start_date q) of
               None \<Rightarrow> None
             | Some getTime \<Rightarrow> new_Date (getTime + duration q * 60000)) then Ended
       else Full q)" for t
    using student_read [of p d cid c qid q "e\<lparr>now := t\<rparr>"] assms by simp
  from \<open>0 \<le> duration q\<close> have le: "start_date q \<le> ?end" by simp
  have at_start: "get_quiz (e\<lparr>now := start_date q\<rparr>) d (Some p) cid qid = Full q"
    using le by (simp add: r lt_Date_def gt_Date_def new_Date_def split: option.splits)
  have at_end: "get_quiz (e\<lparr>now := ?end\<rparr>) d (Some p) cid qid = Full q"
    using le by (simp add: r lt_Date_def gt_Date_def new_Date_def split: option.splits)
  have after: "get_quiz (e\<lparr>now := t\<rparr>) d (Some p) cid qid = Ended"
    if "valid_time (start_date q)" and "valid_time t" and "?end < t" for t
  proof -
    from that le have "valid_time ?end" by (simp add: valid_time_def)
    with that le show ?thesis
      by (simp add: r lt_Date_def gt_Date_def new_Date_def)
  qed
  from at_start at_end after show ?thesis by blast
qed

theorem student_window_closed_witness:
  "get_quiz ((env_at 0)\<lparr>now := 1000000\<rparr>) db0 (Some pupil0) 1 100 = Full quiz0
   \<and> get_quiz ((env_at 0)\<lparr>now := 4600000\<rparr>) db0 (Some pupil0) 1 100 = Full quiz0
   \<and> get_quiz ((env_at 0)\<lparr>now := 4600001\<rparr>) db0 (Some pupil0) 1 100 = Ended"
proof -
  have "role pupil0 = ''student''" and "Class db0 1 = Some class0"
    and "user_id pupil0 \<in> set (students class0)" and "Quiz db0 100 = Some quiz0"
    and "\<not> rejects (env_at 0) Class_findById" and "\<not> rejects (env_at 0) Quiz_findById"
    and "0 \<le> duration quiz0"
    by (simp_all add: pupil0_def db0_def class0_def quiz0_def env_at_def calm_def)
  note window = student_window_closed [OF this]
  have "valid_time (start_date quiz0)" and "valid_time 4600001"
    and "start_date quiz0 + duration quiz0 * 60000 < 4600001"
    and "start_date quiz0 = 1000000"
    and "start_date quiz0 + duration quiz0 * 60000 = 4600000"
    by (simp_all add: quiz0_def valid_time_def max_time_def)
  with window show ?thesis by metis
qed

text \<open>
  The hypothesis on the duration is needed: the schema admits a negative duration, and then
  the end of the window lies before its start and the student is told at the instant
  start_date that the quiz has passed.
\<close>

lemma negative_duration_at_start:
  "get_quiz (env_at 1000000) (db0\<lparr>Quiz := [100 \<mapsto> quiz0\<lparr>duration := - 1\<rparr>]\<rparr>)
     (Some pupil0) 1 100 = Ended"
  by (simp add: get_quiz_def env_at_def calm_def db0_def pupil0_def class0_def quiz0_def
      Ended_def new_Date_def valid_time_def max_time_def lt_Date_def gt_Date_def)

text \<open>
  When the end of the window is no date, the second comparison is false at every instant:
  with a duration of minus 10^15 minutes the student receives the quiz at and after its start.
\<close>

lemma end_out_of_range:
  "get_quiz (env_at 1000000)
     (db0\<lparr>Quiz := [100 \<mapsto> quiz0\<lparr>duration := - 1000000000000000\<rparr>]\<rparr>)
     (Some pupil0) 1 100 = Full (quiz0\<lparr>duration := - 1000000000000000\<rparr>)"
  by (simp add: get_quiz_def env_at_def calm_def db0_def pupil0_def class0_def quiz0_def
      Full_def new_Date_def valid_time_def max_time_def lt_Date_def gt_Date_def)

text \<open>
  C9. A student who is a member of the class and reads a quiz inside its window receives
  the stored quiz document as it is: the body carries the \<^verbatim>\<open>is_correct\<close> flag of every
  option of every question.
\<close>

theorem student_read_exposes_is_correct:
  assumes "role p = ''student''"
    and "Class d cid = Some c" and "user_id p \<in> set (students c)"
    and "Quiz d qid = Some q"
    and "\<not> rejects e Class_findById" and "\<not> rejects e Quiz_findById"
    and "start_date q \<le> now e" and "now e \<le> start_date q + duration q * 60000"
  shows "get_quiz e d (Some p) cid qid = respond 200 (QuizJson q)
    \<and> payload_flags (body (get_quiz e d (Some p) cid qid)) = Some (correctness_flags q)"
  using assms
  by (simp add: get_quiz_def respond_def Let_def lt_Date_def gt_Date_def new_Date_def
      split: option.splits)

theorem student_read_exposes_is_correct_witness:
  "get_quiz (env_at 2000000) db0 (Some pupil0) 1 100 = respond 200 (QuizJson quiz0)
   \<and> payload_flags (body (get_quiz (env_at 2000000) db0 (Some pupil0) 1 100))
       = Some [[True, False]]"
proof -
  have "role pupil0 = ''student''" and "Class db0 1 = Some class0"
    and "user_id pupil0 \<in> set (students class0)" and "Quiz db0 100 = Some quiz0"
    and "\<not> rejects (env_at 2000000) Class_findById"
    and "\<not> rejects (env_at 2000000) Quiz_findById"
    and "start_date quiz0 \<le> now (env_at 2000000)"
    and "now (env_at 2000000) \<le> start_date quiz0 + duration quiz0 * 60000"
    by (simp_all add: pupil0_def db0_def class0_def quiz0_def env_at_def calm_def)
  note read = student_read_exposes_is_correct [OF this]
  have "correctness_flags quiz0 = [[True, False]]"
    by (simp add: correctness_flags_def quiz0_def)
  with read show ?thesis by (simp add: respond_def)
qed

section \<open>Properties of the membership operations\<close>

text \<open>
  C2. The add-student handler pushes the student's id without looking at the list: run on
  class 1, which already holds student 20, with the owning teacher adding student 20, it
  answers that the student was added and leaves two entries for that student.
\<close>

theorem add_student_pushes_duplicate:
  "20 \<in> set (students class0)
   \<and> post_add_student (env_at 0) db0 (Some teacher0) 1 20 =
       (respond 200 (Message ''Student added to the class successfully''),
        db0\<lparr>Class := (Class db0)(1 \<mapsto> class0\<lparr>students := [20, 20]\<rparr>)\<rparr>)
   \<and> count_list [20, 20] (20 :: oid) = 2"
  by (simp add: post_add_student_def env_at_def calm_def db0_def teacher0_def class0_def)

text \<open>The join handler never writes to the student collection.\<close>

lemma Student_addToSet_classes_noop: "Student_addToSet_classes d sid classId = d"
  by (simp add: Student_addToSet_classes_def castUpdate_def studentSchema_def)

lemma post_join_Student: "Student (snd (post_join e d user classId)) = Student d"
  by (simp add: post_join_def Student_addToSet_classes_noop Let_def
      split: option.splits)

text \<open>What a join that answers with the joined message has done to the store.\<close>

lemma post_join_joined:
  assumes "post_join e d (Some p) cid =
      (respond 200 (Message ''Student joined the class successfully''), d1)"
  obtains c where "Class d cid = Some c" and "user_id p \<notin> set (students c)"
    and "d1 = d\<lparr>Class := (Class d)(cid \<mapsto> c\<lparr>students := students c @ [user_id p]\<rparr>)\<rparr>"
  using assms
  by (auto simp: post_join_def Student_addToSet_classes_noop Let_def respond_def
      internal_error_def split: option.splits if_splits)

text \<open>
  C7. For a student principal whose own document and the class are found: if the student's
  id is already in the class's list, the join answers that the student is already in the
  class and the store is unchanged; and after a join that answered with the joined message,
  a second join of the same class answers already-in-the-class, changes nothing, and the
  class lists the student exactly once.
\<close>

theorem join_idempotent:
  assumes "role p = ''student''"
    and "Class d cid = Some c" and "Student d (user_id p) = Some s"
    and "\<not> rejects e Class_findById" and "\<not> rejects e Student_findById"
  shows "(user_id p \<in> set (students c) \<longrightarrow>
            post_join e d (Some p) cid =
              (respond 200 (Message ''Student already in the class''), d))
    \<and> (\<forall>e1 d1. post_join e1 d (Some p) cid =
            (respond 200 (Message ''Student joined the class successfully''), d1) \<longrightarrow>
          post_join e d1 (Some p) cid =
            (respond 200 (Message ''Student already in the class''), d1)
          \<and> (\<exists>c1. Class d1 cid = Some c1 \<and> count_list (students c1) (user_id p) = 1))"
proof (intro conjI allI impI)
  assume "user_id p \<in> set (students c)"
  with assms show "post_join e d (Some p) cid =
      (respond 200 (Message ''Student already in the class''), d)"
    by (simp add: post_join_def)
next
  fix e1 d1
  assume first: "post_join e1 d (Some p) cid =
      (respond 200 (Message ''Student joined the class successfully''), d1)"
  from first obtain c' where c': "Class d cid = Some c'"
    and fresh: "user_id p \<notin> set (students c')"
    and d1: "d1 = d\<lparr>Class := (Class d)(cid \<mapsto> c'\<lparr>students := students c' @ [user_id p]\<rparr>)\<rparr>"
    by (rule post_join_joined)
  from c' assms have "c' = c" by simp
  with d1 have cls: "Class d1 cid = Some (c\<lparr>students := students c @ [user_id p]\<rparr>)"
    and stu: "Student d1 (user_id p) = Some s"
    using assms by simp_all
  from cls stu assms show "post_join e d1 (Some p) cid =
      (respond 200 (Message ''Student already in the class''), d1)"
    by (simp add: post_join_def)
  from fresh \<open>c' = c\<close> have "count_list (students c @ [user_id p]) (user_id p) = 1"
    by (simp add: count_list_0_iff)
  with cls show "\<exists>c1. Class d1 cid = Some c1 \<and> count_list (students c1) (user_id p) = 1"
    by simp
qed

theorem join_idempotent_witness:
  "post_join (env_at 0) db0 (Some pupil0) 1 =
     (respond 200 (Message ''Student already in the class''), db0)
   \<and> post_join (env_at 0) (snd (post_join (env_at 0) db0 (Some pupil1) 2)) (Some pupil1) 2 =
     (respond 200 (Message ''Student already in the class''),
      snd (post_join (env_at 0) db0 (Some pupil1) 2))
   \<and> (\<exists>c1. Class (snd (post_join (env_at 0) db0 (Some pupil1) 2)) 2 = Some c1
         \<and> count_list (students c1) (user_id pupil1) = 1)"
proof -
  have a: "role pupil0 = ''student''" "Class db0 1 = Some class0"
    "Student db0 (user_id pupil0) = Some student0"
    "\<not> rejects (env_at 0) Class_findById" "\<not> rejects (env_at 0) Student_findById"
    and m: "user_id pupil0 \<in> set (students class0)"
    by (simp_all add: pupil0_def db0_def class0_def env_at_def calm_def)
  have b: "role pupil1 = ''student''" "Class db0 2 = Some class1"
    "Student db0 (user_id pupil1) = Some student0"
    by (simp_all add: pupil1_def db0_def)
  have j: "post_join (env_at 0) db0 (Some pupil1) 2 =
      (respond 200 (Message ''Student joined the class successfully''),
       snd (post_join (env_at 0) db0 (Some pupil1) 2))"
    by (simp add: post_join_def Student_addToSet_classes_noop env_at_def calm_def db0_def
        pupil1_def class1_def)
  from join_idempotent [OF a] m join_idempotent [OF b a(4,5)] j show ?thesis
    by blast
qed

text \<open>
  C8. Student 21 joins class 1. The class side is written: the class now lists 20 and 21.
  The student side is not: \<^verbatim>\<open>studentSchema\<close> declares no path \<^verbatim>\<open>classes\<close>, the update
  operator is dropped by the cast against the schema, and the student's document is what
  it was, with an empty list of classes.
\<close>

theorem join_leaves_student_side:
  "post_join (env_at 0) db0 (Some pupil1) 1 =
     (respond 200 (Message ''Student joined the class successfully''),
      db0\<lparr>Class := (Class db0)(1 \<mapsto> class0\<lparr>students := [20, 21]\<rparr>)\<rparr>)
   \<and> Student (snd (post_join (env_at 0) db0 (Some pupil1) 1)) 21 = Some student0
   \<and> classes student0 = []
   \<and> castUpdate studentSchema (''classes'', 1 :: oid) = None"
  by (simp add: post_join_def Student_addToSet_classes_def castUpdate_def studentSchema_def
      env_at_def calm_def db0_def pupil1_def class0_def student0_def)

section \<open>Properties of quiz creation and update\<close>

text \<open>
  C3. Once the owner's request has passed the start-date check, a rejection of the quiz's
  validation, of its save or of the class's save does not reach the client: the answer is
  still status 200 with the message that the quiz was created, together with the new quiz
  document. When validation or the quiz's save rejected, the store is unchanged, so the
  quiz in the answer was never saved; when only the class's save rejected, the class
  does not list the quiz.
\<close>

theorem create_quiz_swallows_save_error:
  assumes "role p = ''teacher''"
    and "Class d cid = Some c" and "teacher_id c = user_id p"
    and "\<not> rejects e Class_findById"
    and "now e < start_date b"
    and "rejects e Quiz_validate \<or> rejects e Quiz_save \<or> rejects e Class_save"
  shows "fst (post_quizzes e d (Some p) cid b) =
           respond 200 (MessageQuiz ''Quiz created successfully'' (new_Quiz b cid))
    \<and> fst (post_quizzes e d (Some p) cid b) \<noteq> internal_error
    \<and> (rejects e Quiz_validate \<or> rejects e Quiz_save \<longrightarrow>
          snd (post_quizzes e d (Some p) cid b) = d)
    \<and> Class (snd (post_quizzes e d (Some p) cid b)) = Class d"
  using assms
  by (auto simp: post_quizzes_def save_new_quiz_def Let_def respond_def internal_error_def)

theorem create_quiz_swallows_save_error_witness:
  "fst (post_quizzes ((env_at 0)\<lparr>rejects := class_save_fails\<rparr>) db0 (Some teacher0) 1 body0) =
     respond 200 (MessageQuiz ''Quiz created successfully'' (new_Quiz body0 1))
   \<and> Class (snd (post_quizzes ((env_at 0)\<lparr>rejects := class_save_fails\<rparr>) db0
        (Some teacher0) 1 body0)) = Class db0"
proof -
  let ?e = "(env_at 0)\<lparr>rejects := class_save_fails\<rparr>"
  have "role teacher0 = ''teacher''" and "Class db0 1 = Some class0"
    and "teacher_id class0 = user_id teacher0"
    and "\<not> rejects ?e Class_findById"
    and "now ?e < start_date body0"
    and "rejects ?e Quiz_validate \<or> rejects ?e Quiz_save \<or> rejects ?e Class_save"
    by (simp_all add: teacher0_def db0_def class0_def body0_def env_at_def
        class_save_fails_def)
  from create_quiz_swallows_save_error [OF this] show ?thesis by simp
qed

text \<open>
  C4. Quiz creation answers 403 with the not-a-teacher message for every principal whose
  role is not teacher, and 403 with the not-the-teacher-of-this-class message for every
  teacher who is not the owner of the class in the path, whatever else that teacher owns;
  in both cases the store is unchanged. For a class that is found, the request is not
  answered with 403 exactly when the role is teacher and the class's teacher_id is the
  principal's id.
\<close>

theorem create_quiz_authorization:
  "(role p \<noteq> ''teacher'' \<longrightarrow>
      post_quizzes e d (Some p) cid b = (respond 403 (Error ''User is not a teacher''), d))
   \<and> (role p = ''teacher'' \<and> \<not> rejects e Class_findById \<and> Class d cid = Some c
        \<and> teacher_id c \<noteq> user_id p \<longrightarrow>
      post_quizzes e d (Some p) cid b =
        (respond 403 (Error ''User is not the teacher of this class''), d))
   \<and> (\<not> rejects e Class_findById \<and> Class d cid = Some c \<longrightarrow>
        (status (fst (post_quizzes e d (Some p) cid b)) \<noteq> 403
          \<longleftrightarrow> role p = ''teacher'' \<and> teacher_id c = user_id p))"
  by (auto simp: post_quizzes_def Let_def respond_def)

theorem create_quiz_authorization_witness:
  "post_quizzes (env_at 0) db0 (Some pupil0) 1 body0 =
     (respond 403 (Error ''User is not a teacher''), db0)
   \<and> teacher_id class1 = user_id teacher1
   \<and> post_quizzes (env_at 0) db0 (Some teacher1) 1 body0 =
     (respond 403 (Error ''User is not the teacher of this class''), db0)
   \<and> status (fst (post_quizzes (env_at 0) db0 (Some teacher0) 1 body0)) \<noteq> 403"
proof -
  have "role pupil0 \<noteq> ''teacher''" by (simp add: pupil0_def)
  moreover have "role teacher1 = ''teacher'' \<and> \<not> rejects (env_at 0) Class_findById
      \<and> Class db0 1 = Some class0 \<and> teacher_id class0 \<noteq> user_id teacher1"
    by (simp add: teacher1_def env_at_def calm_def db0_def class0_def)
  moreover have "\<not> rejects (env_at 0) Class_findById \<and> Class db0 1 = Some class0"
    and "role teacher0 = ''teacher'' \<and> teacher_id class0 = user_id teacher0"
    by (simp_all add: teacher0_def env_at_def calm_def db0_def class0_def)
  moreover have "teacher_id class1 = user_id teacher1"
    by (simp add: teacher1_def class1_def)
  ultimately show ?thesis
    using create_quiz_authorization [of pupil0 "env_at 0" db0 1 body0 class0]
      create_quiz_authorization [of teacher1 "env_at 0" db0 1 body0 class0]
      create_quiz_authorization [of teacher0 "env_at 0" db0 1 body0 class0]
    by blast
qed



text \<open>A created quiz is never written into its class: the class's save always rejects.\<close>

lemma post_quizzes_Class: "Class (snd (post_quizzes e d user classId b)) = Class d"
  by (simp add: post_quizzes_def save_new_quiz_def Let_def split: option.splits)

section \<open>The quiz's class_id\<close>

text \<open>
  C10, as stated, promises quiz Q to every principal who passes the access check and an
  update to every owner. Quiz 200 has class_id 2 and is asked for through class 1: student
  20, a member of class 1, asks before the quiz has started and receives the not-started
  message and not the quiz, and the owner of class 1 who sends a start_date that is not in
  the future is answered with 400 and the quiz is left as it was.
\<close>

theorem class_id_claim_counterexample:
  "class_id quiz1 \<noteq> 1
   \<and> Class db0 1 = Some class0 \<and> user_id pupil0 \<in> set (students class0)
   \<and> Quiz db0 200 = Some quiz1
   \<and> get_quiz (env_at 0) db0 (Some pupil0) 1 200 = NotStarted
   \<and> get_quiz (env_at 0) db0 (Some pupil0) 1 200 \<noteq> Full quiz1
   \<and> patch_quiz (env_at 9000000) db0 (Some teacher0) 1 200 body0 =
       (respond 400 (Error ''Quiz start date must be in the future''), db0)"
  by (simp add: get_quiz_def patch_quiz_def env_at_def calm_def db0_def pupil0_def
      teacher0_def class0_def quiz1_def body0_def NotStarted_def Full_def respond_def
      new_Date_def valid_time_def max_time_def lt_Date_def gt_Date_def)

text \<open>
  C10, amended. Neither handler reads the \<^verbatim>\<open>class_id\<close> of the quiz it fetched: q below is
  any stored quiz, of the class in the path or of another. Every teacher who passes the
  access check of the class in the path receives q. Every student who passes it receives q
  at every instant from start_date to start_date + duration, and at any instant receives q
  or one of the two status messages. The owner of the class in the path who sends a
  start_date later than now, when the save does not reject, is answered with the updated
  message and the store then holds, under the quiz's id, the quiz_name, start_date,
  duration and questions of the request together with the \<^verbatim>\<open>class_id\<close> that q had.
\<close>

theorem quiz_class_id_never_read:
  assumes "Class d cid = Some c" and "Quiz d qid = Some q"
    and "\<not> rejects e Class_findById" and "\<not> rejects e Quiz_findById"
  shows "(role p = ''teacher''
          \<and> (teacher_id c = user_id p \<or> user_id p \<in> set (students c)) \<longrightarrow>
        get_quiz e d (Some p) cid qid = Full q)
    \<and> (role p = ''student''
          \<and> (teacher_id c = user_id p \<or> user_id p \<in> set (students c)) \<longrightarrow>
        (start_date q \<le> now e \<and> now e \<le> start_date q + duration q * 60000 \<longrightarrow>
           get_quiz e d (Some p) cid qid = Full q)
        \<and> (get_quiz e d (Some p) cid qid = Full q
           \<or> get_quiz e d (Some p) cid qid = NotStarted
           \<or> get_quiz e d (Some p) cid qid = Ended))
    \<and> (role p = ''teacher'' \<and> teacher_id c = user_id p \<and> now e < start_date b
          \<and> \<not> rejects e Quiz_save \<longrightarrow>
        patch_quiz e d (Some p) cid qid b =
          (respond 200 (MessageQuiz ''Quiz updated successfully''
             \<lparr>quiz_name = quiz_name b, start_date = start_date b, duration = duration b,
              questions = questions b, class_id = class_id q\<rparr>),
           d\<lparr>Quiz := (Quiz d)(qid \<mapsto>
             \<lparr>quiz_name = quiz_name b, start_date = start_date b, duration = duration b,
              questions = questions b, class_id = class_id q\<rparr>)\<rparr>))"
proof -
  have upd: "update_quiz q b =
      \<lparr>quiz_name = quiz_name b, start_date = start_date b, duration = duration b,
       questions = questions b, class_id = class_id q\<rparr>"
    by (cases q) (simp add: update_quiz_def)
  have teacher: "get_quiz e d (Some p) cid qid = Full q"
    if "role p = ''teacher''" and "teacher_id c = user_id p \<or> user_id p \<in> set (students c)"
    using that assms by (auto simp: get_quiz_def Full_def)
  have student: "get_quiz e d (Some p) cid qid =
      (if lt_Date (now e) (new_Date (start_date q)) then NotStarted
       else if gt_Date (now e)
            (case new_Date (start_date q) of
               None \<Rightarrow> None
             | Some getTime \<Rightarrow> new_Date (getTime + duration q * 60000)) then Ended
       else Full q)"
    if "role p = ''student''" and "teacher_id c = user_id p \<or> user_id p \<in> set (students c)"
    using that assms
    by (auto simp: get_quiz_def Full_def NotStarted_def Ended_def Let_def)
  have inside: "get_quiz e d (Some p) cid qid = Full q"
    if "role p = ''student''" and "teacher_id c = user_id p \<or> user_id p \<in> set (students c)"
      and "start_date q \<le> now e" and "now e \<le> start_date q + duration q * 60000"
    using that(3,4)
    by (simp add: student [OF that(1,2)] lt_Date_def gt_Date_def new_Date_def
        split: option.splits)
  have any: "get_quiz e d (Some p) cid qid = Full q
      \<or> get_quiz e d (Some p) cid qid = NotStarted
      \<or> get_quiz e d (Some p) cid qid = Ended"
    if "role p = ''student''" and "teacher_id c = user_id p \<or> user_id p \<in> set (students c)"
    by (simp add: student [OF that])
  have patch: "patch_quiz e d (Some p) cid qid b =
      (respond 200 (MessageQuiz ''Quiz updated successfully'' (update_quiz q b)),
       d\<lparr>Quiz := (Quiz d)(qid \<mapsto> update_quiz q b)\<rparr>)"
    if "role p = ''teacher''" and "teacher_id c = user_id p" and "now e < start_date b"
      and "\<not> rejects e Quiz_save"
    using that assms by (simp add: patch_quiz_def Let_def)
  from teacher inside any patch show ?thesis
    unfolding upd by blast
qed

theorem quiz_class_id_never_read_witness:
  "class_id quiz1 \<noteq> 1
   \<and> get_quiz (env_at 0) db0 (Some teacher0) 1 200 = Full quiz1
   \<and> get_quiz (env_at 2000000) db0 (Some pupil0) 1 200 = Full quiz1
   \<and> patch_quiz (env_at 0) db0 (Some teacher0) 1 200 body0 =
       (respond 200 (MessageQuiz ''Quiz updated successfully''
          \<lparr>quiz_name = ''Algebra'', start_date = 9000000, duration = 45, questions = [],
           class_id = 2\<rparr>),
        db0\<lparr>Quiz := (Quiz db0)(200 \<mapsto>
          \<lparr>quiz_name = ''Algebra'', start_date = 9000000, duration = 45, questions = [],
           class_id = 2\<rparr>)\<rparr>)"
proof -
  have a: "Class db0 1 = Some class0" "Quiz db0 200 = Some quiz1"
    and r: "\<not> rejects (env_at t) op" for t op
    by (simp_all add: db0_def env_at_def calm_def)
  have p: "role teacher0 = ''teacher''" "teacher_id class0 = user_id teacher0"
    "role pupil0 = ''student''" "user_id pupil0 \<in> set (students class0)"
    by (simp_all add: teacher0_def pupil0_def class0_def)
  have t: "now (env_at 0) < start_date body0"
    "start_date quiz1 \<le> now (env_at 2000000)"
    "now (env_at 2000000) \<le> start_date quiz1 + duration quiz1 * 60000"
    by (simp_all add: env_at_def body0_def quiz1_def)
  have v: "class_id quiz1 = 2" "class_id quiz1 \<noteq> 1" "quiz_name body0 = ''Algebra''"
    "start_date body0 = 9000000" "duration body0 = 45" "questions body0 = []"
    by (simp_all add: quiz1_def body0_def)
  note T = quiz_class_id_never_read
    [where e = "env_at 0" and p = teacher0 and b = body0, OF a r r]
  note S = quiz_class_id_never_read
    [where e = "env_at 2000000" and p = pupil0 and b = body0, OF a r r]
  from T p have "get_quiz (env_at 0) db0 (Some teacher0) 1 200 = Full quiz1" by blast
  moreover from S p t have "get_quiz (env_at 2000000) db0 (Some pupil0) 1 200 = Full quiz1"
    by blast
  moreover from T p t r [of 0 Quiz_save]
  have "patch_quiz (env_at 0) db0 (Some teacher0) 1 200 body0 =
       (respond 200 (MessageQuiz ''Quiz updated successfully''
          \<lparr>quiz_name = quiz_name body0, start_date = start_date body0,
           duration = duration body0, questions = questions body0,
           class_id = class_id quiz1\<rparr>),
        db0\<lparr>Quiz := (Quiz db0)(200 \<mapsto>
          \<lparr>quiz_name = quiz_name body0, start_date = start_date body0,
           duration = duration body0, questions = questions body0,
           class_id = class_id quiz1\<rparr>)\<rparr>)"
    by blast
  ultimately show ?thesis using v by simp
qed

end
